theory Spec2Isabelle
  imports Main
begin

section \<open>The reflection runner of \<^verbatim>\<open>src/lib/reflection/reflect.ts\<close>\<close>

text \<open>
  The module runs the reflection step either on the main thread or in a forked child
  process and hands back a promise of a tagged result. The embedding keeps the names of
  the source. What the module imports from files that are not part of the sources
  (\<^verbatim>\<open>./stage\<close>, \<^verbatim>\<open>../layout\<close>, \<^verbatim>\<open>../../runtime/start\<close>, \<^verbatim>\<open>serialize-error\<close>, \<^verbatim>\<open>path\<close>,
  \<^verbatim>\<open>child_process\<close>) is taken as a parameter, collected in the record \<open>externals\<close>. The
  functions are first defined for imported calls that return; the record \<open>throwing\<close> and
  the definitions after it add the calls that throw.
\<close>

subsection \<open>Data\<close>

text \<open>
  A JavaScript \<^verbatim>\<open>Error\<close>: its name and its message (the stack is not modelled). What is
  thrown is taken to be such an object; JavaScript lets any value be thrown, and
  \<^verbatim>\<open>catch (error)\<close> hands on whatever it was.
\<close>

record Error =
  name :: string
  message :: string

text \<open>\<^verbatim>\<open>new Error(msg)\<close>\<close>

definition new_Error :: "string \<Rightarrow> Error" where
  "new_Error msg = \<lparr>name = ''Error'', message = msg\<rparr>"

text \<open>
  A promise is pending, resolved with a value, or rejected with what was thrown.
  A promise that is still \<open>Pending\<close> when nothing more can happen never settles.
\<close>

datatype 'a promise = Pending | Resolved 'a | Rejected Error

text \<open>
  The type \<^verbatim>\<open>Message\<close> (lines 13 to 23): a union discriminated by the field \<^verbatim>\<open>type\<close>.
  \<open>'p\<close> stands for \<^verbatim>\<open>Plugin\<close>, \<open>'eo\<close> for \<^verbatim>\<open>ErrorObject\<close> of serialize-error.
\<close>

datatype ('p, 'eo) Message =
    SuccessPlugin "'p list"
  | SuccessTypegen
  | ErrorMessage 'eo

text \<open>The discriminating field \<^verbatim>\<open>type\<close> of a message.\<close>

fun message_type :: "('p, 'eo) Message \<Rightarrow> string" where
  "message_type (SuccessPlugin plugins) = ''success-plugin''"
| "message_type SuccessTypegen = ''success-typegen''"
| "message_type (ErrorMessage serializedError) = ''error''"

text \<open>
  \<^verbatim>\<open>ReflectionResult\<close> (lines 25 to 27): \<^verbatim>\<open>{ success: false; error }\<close>,
  \<^verbatim>\<open>{ success: true; plugins }\<close> and \<^verbatim>\<open>{ success: true }\<close>.
\<close>

datatype 'p ReflectionResult =
    Failure Error
  | SuccessPlugins "'p list"
  | Success

text \<open>The field \<^verbatim>\<open>success\<close> of a result.\<close>

fun success :: "'p ReflectionResult \<Rightarrow> bool" where
  "success (Failure error) = False"
| "success (SuccessPlugins plugins) = True"
| "success Success = True"

text \<open>The two fields of \<^verbatim>\<open>Layout.Layout\<close> that the module reads.\<close>

record 'd Layout =
  projectRoot :: string
  data :: 'd

text \<open>
  The options of \<^verbatim>\<open>reflect\<close> (line 42): \<^verbatim>\<open>usedPlugins?: true\<close> and \<^verbatim>\<open>artifacts?: true\<close> are
  either absent or \<^verbatim>\<open>true\<close>; \<^verbatim>\<open>onMainThread?: boolean\<close> is absent, \<^verbatim>\<open>true\<close> or \<^verbatim>\<open>false\<close>.
\<close>

record reflect_opts =
  usedPlugins :: bool
  artifacts :: bool
  onMainThread :: "bool option"

text \<open>The \<^verbatim>\<open>stdio\<close> option of \<^verbatim>\<open>fork\<close>, and the options object built at lines 83 to 91.\<close>

datatype stdio_mode = Inherit | Pipe

record fork_options =
  modulePath :: string
  args :: "string list"
  cwd :: string
  stdio :: stdio_mode
  env :: "string \<rightharpoonup> string"

text \<open>
  What the event loop delivers for the child process: a \<^verbatim>\<open>'message'\<close>, an \<^verbatim>\<open>'error'\<close>,
  a \<^verbatim>\<open>'data'\<close> chunk of its stderr stream, or its \<^verbatim>\<open>'exit'\<close> with a code
  (\<^verbatim>\<open>null\<close>, here \<open>None\<close>, when a signal ended it).
\<close>

datatype ('p, 'eo) cp_event =
    MessageEv "('p, 'eo) Message"
  | ErrorEv Error
  | StderrData string
  | ExitEv "int option"

text \<open>
  The calls the module makes to the outside, in order. \<open>LogTrace\<close> is \<^verbatim>\<open>log.trace\<close> with
  its context object, \<open>CreateDevAppRunner\<close> carries the option \<^verbatim>\<open>catchUnhandledErrors\<close>.
\<close>

datatype log_context =
    NoContext
  | ErrContext Error
  | DataContext string
  | CodeContext "int option"

datatype effect =
    LogTrace string log_context
  | SetReflectionStage string
  | RemoveReflectionStage
  | CreateDevAppRunner bool
  | AppRunnerStart
  | Fork fork_options

text \<open>
  The imported functions and the ambient values. \<open>'w\<close> is the state of the parent
  process (its environment variables, the loaded app, whatever \<^verbatim>\<open>./stage\<close> keeps).
  \<open>createDevAppRunner layout c\<close> is \<^verbatim>\<open>createDevAppRunner(layout, app, { catchUnhandledErrors: c })\<close>
  for the app that \<^verbatim>\<open>require('../../').default\<close> loads: it yields the \<^verbatim>\<open>start\<close> method of the
  runner, which changes the state of the process and yields a promise. \<open>child_events\<close> is
  what the forked child does, as the sequence of events delivered to the parent.
\<close>

record ('d, 'eo, 'p, 'w) externals =
  dirname :: string
  Path_join :: "string \<Rightarrow> string \<Rightarrow> string"
  JSON_stringify :: "'d \<Rightarrow> string"
  getReflectionStageEnv :: "string \<Rightarrow> (string \<rightharpoonup> string)"
  setReflectionStage :: "string \<Rightarrow> 'w \<Rightarrow> 'w"
  removeReflectionStage :: "'w \<Rightarrow> 'w"
  deserializeError :: "'eo \<Rightarrow> Error"
  process_env :: "'w \<Rightarrow> (string \<rightharpoonup> string)"
  app_plugins :: "'w \<Rightarrow> 'p list"
  createDevAppRunner :: "'d Layout \<Rightarrow> bool \<Rightarrow> 'w \<Rightarrow> ('w \<Rightarrow> unit promise \<times> 'w) \<times> 'w"
  child_events :: "fork_options \<Rightarrow> 'w \<Rightarrow> ('p, 'eo) cp_event list"

text \<open>The state threaded through the module: the parent process and the calls made so far.\<close>

record 'w state =
  world :: 'w
  effects :: "effect list"

definition emit :: "effect \<Rightarrow> 'w state \<Rightarrow> 'w state" where
  "emit e s = s\<lparr>effects := effects s @ [e]\<rparr>"

subsection \<open>JavaScript primitives\<close>

text \<open>Truthiness of \<^verbatim>\<open>process.env.X\<close>: \<^verbatim>\<open>undefined\<close> and the empty string are falsy.\<close>

fun truthy :: "string option \<Rightarrow> bool" where
  "truthy None = False"
| "truthy (Some v) = (v \<noteq> [])"

text \<open>The decimal digits of a natural number, and \<^verbatim>\<open>String(code)\<close> of an exit code.\<close>

fun digits :: "nat \<Rightarrow> string" where
  "digits n = (if n < 10 then [''0123456789'' ! n]
               else digits (n div 10) @ [''0123456789'' ! (n mod 10)])"

declare digits.simps [simp del]

definition string_of_int :: "int \<Rightarrow> string" where
  "string_of_int i = (if i < 0 then ''-'' @ digits (nat (- i)) else digits (nat i))"

fun string_of_code :: "int option \<Rightarrow> string" where
  "string_of_code None = ''null''"
| "string_of_code (Some i) = string_of_int i"

text \<open>
  \<open>resolve\<close> of a promise: the first call settles it, every later call is ignored.
\<close>

fun resolve :: "'a \<Rightarrow> 'a promise \<Rightarrow> 'a promise" where
  "resolve v Pending = Resolved v"
| "resolve v (Resolved v0) = Resolved v0"
| "resolve v (Rejected e) = Rejected e"

subsection \<open>\<^verbatim>\<open>runTypegenReflectionAsSubProcess\<close> (lines 81 to 125)\<close>

text \<open>The second and third argument of \<^verbatim>\<open>fork\<close> (lines 83 to 91).\<close>

definition fork_call :: "('d, 'eo, 'p, 'w) externals \<Rightarrow> 'd Layout \<Rightarrow> 'w \<Rightarrow> fork_options" where
  "fork_call X layout w =
     \<lparr>modulePath = Path_join X (dirname X) ''fork-script.js'',
      args = [],
      cwd = projectRoot layout,
      stdio = (if truthy (process_env X w ''DEBUG'') then Inherit else Pipe),
      env = (process_env X w)(''NEXUS_REFLECTION_LAYOUT'' \<mapsto> JSON_stringify X (data layout))
              ++ getReflectionStageEnv X ''typegen''\<rparr>"

text \<open>
  The handlers act on the promise under construction and on the log. Lines 93 to 101:
  two independent \<^verbatim>\<open>if\<close>s on the message type; the inner \<open>case\<close> reads
  \<^verbatim>\<open>message.data.serializedError\<close>, which only an \<^verbatim>\<open>'error'\<close> message has.
\<close>

type_synonym 'p settling = "'p ReflectionResult promise \<times> effect list"

definition on_message ::
  "('d, 'eo, 'p, 'w) externals \<Rightarrow> ('p, 'eo) Message \<Rightarrow> 'p settling \<Rightarrow> 'p settling" where
  "on_message X msg st =
     (let st1 = (if message_type msg = ''success-typegen''
                 then (resolve Success (fst st), snd st) else st);
          st2 = (if message_type msg = ''error''
                 then (case msg of
                         ErrorMessage serializedError \<Rightarrow>
                           (resolve (Failure (deserializeError X serializedError)) (fst st1),
                            snd st1)
                       | _ \<Rightarrow> st1)
                 else st1)
      in st2)"

text \<open>Lines 103 to 106.\<close>

definition on_error :: "Error \<Rightarrow> 'p settling \<Rightarrow> 'p settling" where
  "on_error err st =
     (resolve (Failure err) (fst st), snd st @ [LogTrace ''error'' (ErrContext err)])"

text \<open>Lines 108 to 111; \<^verbatim>\<open>new Error(err)\<close> takes the chunk as the message.\<close>

definition on_stderr_data :: "string \<Rightarrow> 'p settling \<Rightarrow> 'p settling" where
  "on_stderr_data err st =
     (resolve (Failure (new_Error err)) (fst st), snd st @ [LogTrace ''error'' (DataContext err)])"

text \<open>Lines 113 to 123. The template literal spans three lines of the source.\<close>

definition exit_failure_message :: "int option \<Rightarrow> string" where
  "exit_failure_message code =
     ''\<newline>        Runner failed with exit code \"'' @ string_of_code code @ ''\".\<newline>      ''"

definition on_exit :: "int option \<Rightarrow> 'p settling \<Rightarrow> 'p settling" where
  "on_exit code st =
     (if code \<noteq> Some 0
      then (resolve (Failure (new_Error (exit_failure_message code))) (fst st),
            snd st @ [LogTrace ''failed with exit code !== 0'' (CodeContext code)])
      else st)"

text \<open>
  One event reaches the handler registered for it. \<^verbatim>\<open>cp.stderr?.on\<close> registers the
  stderr handler only when the child has a piped stderr; with \<^verbatim>\<open>stdio: 'inherit'\<close>
  \<^verbatim>\<open>cp.stderr\<close> is \<^verbatim>\<open>null\<close>.
\<close>

fun deliver ::
  "('d, 'eo, 'p, 'w) externals \<Rightarrow> stdio_mode \<Rightarrow> ('p, 'eo) cp_event \<Rightarrow> 'p settling \<Rightarrow> 'p settling" where
  "deliver X sm (MessageEv msg) st = on_message X msg st"
| "deliver X sm (ErrorEv err) st = on_error err st"
| "deliver X sm (StderrData chunk) st = (if sm = Pipe then on_stderr_data chunk st else st)"
| "deliver X sm (ExitEv code) st = on_exit code st"

fun deliver_all ::
  "('d, 'eo, 'p, 'w) externals \<Rightarrow> stdio_mode \<Rightarrow> ('p, 'eo) cp_event list \<Rightarrow> 'p settling \<Rightarrow> 'p settling" where
  "deliver_all X sm [] st = st"
| "deliver_all X sm (ev # evs) st = deliver_all X sm evs (deliver X sm ev st)"

definition runTypegenReflectionAsSubProcess ::
  "('d, 'eo, 'p, 'w) externals \<Rightarrow> 'd Layout \<Rightarrow> 'w state
     \<Rightarrow> 'p ReflectionResult promise \<times> 'w state" where
  "runTypegenReflectionAsSubProcess X layout s =
     (let cp = fork_call X layout (world s);
          s1 = emit (Fork cp) s;
          st = deliver_all X (stdio cp) (child_events X cp (world s)) (Pending, [])
      in (fst st, s1\<lparr>effects := effects s1 @ snd st\<rparr>))"

subsection \<open>\<^verbatim>\<open>runPluginsReflectionOnMainThread\<close> (lines 60 to 79)\<close>

definition runPluginsReflectionOnMainThread ::
  "('d, 'eo, 'p, 'w) externals \<Rightarrow> 'd Layout \<Rightarrow> 'w state
     \<Rightarrow> 'p ReflectionResult promise \<times> 'w state" where
  "runPluginsReflectionOnMainThread X layout s =
     (let appRunner = createDevAppRunner X layout False (world s);
          s0 = emit (CreateDevAppRunner False) (s\<lparr>world := snd appRunner\<rparr>);
          s1 = emit (SetReflectionStage ''plugin'')
                 (s0\<lparr>world := setReflectionStage X ''plugin'' (world s0)\<rparr>);
          started = fst appRunner (world s1);
          s2 = emit AppRunnerStart (s1\<lparr>world := snd started\<rparr>)
      in case fst started of
           Resolved u \<Rightarrow>
             (let s3 = emit RemoveReflectionStage
                         (s2\<lparr>world := removeReflectionStage X (world s2)\<rparr>)
              in (Resolved (SuccessPlugins (app_plugins X (world s3))), s3))
         | Rejected error \<Rightarrow> (Resolved (Failure error), s2)
         | Pending \<Rightarrow> (Pending, s2))"

subsection \<open>\<^verbatim>\<open>reflect\<close> (lines 40 to 54)\<close>

definition not_implemented :: string where
  "not_implemented =
     ''Not implemented. Reflection on plugins needs to be done on the main process for now.''"

definition reflect ::
  "('d, 'eo, 'p, 'w) externals \<Rightarrow> 'd Layout \<Rightarrow> reflect_opts \<Rightarrow> 'w state
     \<Rightarrow> 'p ReflectionResult promise \<times> 'w state" where
  "reflect X layout opts s =
     (let s1 = emit (LogTrace ''reflection started'' NoContext) s
      in if artifacts opts then runTypegenReflectionAsSubProcess X layout s1
         else if usedPlugins opts = True \<and> onMainThread opts = Some False
              then (Rejected (new_Error not_implemented), s1)
              else runPluginsReflectionOnMainThread X layout s1)"

subsection \<open>Imported calls that throw\<close>

text \<open>
  The definitions above take every imported call to return. Some of the calls are made
  outside a \<^verbatim>\<open>try\<close> block, and the promise is rejected with what they throw:
  \<^verbatim>\<open>log.trace\<close> at line 44; \<^verbatim>\<open>Path.join\<close>, \<^verbatim>\<open>JSON.stringify\<close>, \<^verbatim>\<open>getReflectionStageEnv\<close> and
  \<^verbatim>\<open>fork\<close> in the promise executor (lines 83 to 91, evaluated in this order);
  \<^verbatim>\<open>require\<close>, \<^verbatim>\<open>createDevAppRunner\<close> and \<^verbatim>\<open>setReflectionStage\<close> before the \<^verbatim>\<open>try\<close> of
  \<^verbatim>\<open>runPluginsReflectionOnMainThread\<close> (lines 63 to 68). \<^verbatim>\<open>removeReflectionStage\<close> is called
  inside the \<^verbatim>\<open>try\<close>, so what it throws is caught. The record says for each of these calls,
  at its arguments, what it throws, if anything.
\<close>

record ('d, 'w) throwing =
  log_trace_throws :: "string \<Rightarrow> Error option"
  Path_join_throws :: "string \<Rightarrow> string \<Rightarrow> Error option"
  JSON_stringify_throws :: "'d \<Rightarrow> Error option"
  getReflectionStageEnv_throws :: "string \<Rightarrow> Error option"
  fork_throws :: "fork_options \<Rightarrow> Error option"
  require_throws :: "'w \<Rightarrow> Error option"
  createDevAppRunner_throws :: "'d Layout \<Rightarrow> bool \<Rightarrow> 'w \<Rightarrow> Error option"
  setReflectionStage_throws :: "string \<Rightarrow> 'w \<Rightarrow> Error option"
  removeReflectionStage_throws :: "'w \<Rightarrow> Error option"

definition nothing_throws :: "('d, 'w) throwing" where
  "nothing_throws =
     \<lparr>log_trace_throws = (\<lambda>event. None),
      Path_join_throws = (\<lambda>a b. None),
      JSON_stringify_throws = (\<lambda>d. None),
      getReflectionStageEnv_throws = (\<lambda>t. None),
      fork_throws = (\<lambda>cp. None),
      require_throws = (\<lambda>w. None),
      createDevAppRunner_throws = (\<lambda>layout c w. None),
      setReflectionStage_throws = (\<lambda>t w. None),
      removeReflectionStage_throws = (\<lambda>w. None)\<rparr>"

text \<open>
  Lines 81 to 125 again: a throw in the executor rejects the promise before any handler
  is registered; when the four calls return, the run is the one defined above.
\<close>

definition runTypegenReflectionAsSubProcess_throwing ::
  "('d, 'w) throwing \<Rightarrow> ('d, 'eo, 'p, 'w) externals \<Rightarrow> 'd Layout \<Rightarrow> 'w state
     \<Rightarrow> 'p ReflectionResult promise \<times> 'w state" where
  "runTypegenReflectionAsSubProcess_throwing T X layout s =
     (case Path_join_throws T (dirname X) ''fork-script.js'' of
        Some e \<Rightarrow> (Rejected e, s)
      | None \<Rightarrow>
     (case JSON_stringify_throws T (data layout) of
        Some e \<Rightarrow> (Rejected e, s)
      | None \<Rightarrow>
     (case getReflectionStageEnv_throws T ''typegen'' of
        Some e \<Rightarrow> (Rejected e, s)
      | None \<Rightarrow>
     (case fork_throws T (fork_call X layout (world s)) of
        Some e \<Rightarrow> (Rejected e, s)
      | None \<Rightarrow> runTypegenReflectionAsSubProcess X layout s))))"

text \<open>
  Lines 60 to 79 again: a throw before the \<^verbatim>\<open>try\<close> rejects the promise of the \<^verbatim>\<open>async\<close>
  function, a throw inside it is caught and becomes a failure result.
\<close>

definition runPluginsReflectionOnMainThread_throwing ::
  "('d, 'w) throwing \<Rightarrow> ('d, 'eo, 'p, 'w) externals \<Rightarrow> 'd Layout \<Rightarrow> 'w state
     \<Rightarrow> 'p ReflectionResult promise \<times> 'w state" where
  "runPluginsReflectionOnMainThread_throwing T X layout s =
     (case require_throws T (world s) of
        Some e \<Rightarrow> (Rejected e, s)
      | None \<Rightarrow>
     (case createDevAppRunner_throws T layout False (world s) of
        Some e \<Rightarrow> (Rejected e, s)
      | None \<Rightarrow>
     (let appRunner = createDevAppRunner X layout False (world s);
          s0 = emit (CreateDevAppRunner False) (s\<lparr>world := snd appRunner\<rparr>)
      in case setReflectionStage_throws T ''plugin'' (world s0) of
           Some e \<Rightarrow> (Rejected e, s0)
         | None \<Rightarrow>
        (let s1 = emit (SetReflectionStage ''plugin'')
                    (s0\<lparr>world := setReflectionStage X ''plugin'' (world s0)\<rparr>);
             started = fst appRunner (world s1);
             s2 = emit AppRunnerStart (s1\<lparr>world := snd started\<rparr>)
         in case fst started of
              Resolved u \<Rightarrow>
                (case removeReflectionStage_throws T (world s2) of
                   Some e \<Rightarrow> (Resolved (Failure e), s2)
                 | None \<Rightarrow>
                    (let s3 = emit RemoveReflectionStage
                                (s2\<lparr>world := removeReflectionStage X (world s2)\<rparr>)
                     in (Resolved (SuccessPlugins (app_plugins X (world s3))), s3)))
            | Rejected error \<Rightarrow> (Resolved (Failure error), s2)
            | Pending \<Rightarrow> (Pending, s2)))))"

text \<open>Lines 40 to 54 again.\<close>

definition reflect_throwing ::
  "('d, 'w) throwing \<Rightarrow> ('d, 'eo, 'p, 'w) externals \<Rightarrow> 'd Layout \<Rightarrow> reflect_opts \<Rightarrow> 'w state
     \<Rightarrow> 'p ReflectionResult promise \<times> 'w state" where
  "reflect_throwing T X layout opts s =
     (case log_trace_throws T ''reflection started'' of
        Some e \<Rightarrow> (Rejected e, s)
      | None \<Rightarrow>
     (let s1 = emit (LogTrace ''reflection started'' NoContext) s
      in if artifacts opts then runTypegenReflectionAsSubProcess_throwing T X layout s1
         else if usedPlugins opts = True \<and> onMainThread opts = Some False
              then (Rejected (new_Error not_implemented), s1)
              else runPluginsReflectionOnMainThread_throwing T X layout s1))"

subsection \<open>Messages as the child sends them\<close>

text \<open>
  The annotation \<^verbatim>\<open>message: Message\<close> of line 93 is not checked when the program runs: the
  listener gets what the child passed to \<^verbatim>\<open>process.send\<close>. Such a message is taken here as
  an object with a string \<^verbatim>\<open>type\<close> and, when it has a \<^verbatim>\<open>data\<close> object, the \<^verbatim>\<open>plugins\<close> and the
  \<^verbatim>\<open>serializedError\<close> that object may hold.
\<close>

record ('p, 'eo) ipc_data =
  ipc_plugins :: "'p list option"
  ipc_serializedError :: "'eo option"

record ('p, 'eo) ipc_message =
  ipc_type :: string
  ipc_data :: "('p, 'eo) ipc_data option"

text \<open>The object that a message of type \<^verbatim>\<open>Message\<close> is.\<close>

fun ipc_of :: "('p, 'eo) Message \<Rightarrow> ('p, 'eo) ipc_message" where
  "ipc_of (SuccessPlugin plugins) =
     \<lparr>ipc_type = ''success-plugin'',
      ipc_data = Some \<lparr>ipc_plugins = Some plugins, ipc_serializedError = None\<rparr>\<rparr>"
| "ipc_of SuccessTypegen = \<lparr>ipc_type = ''success-typegen'', ipc_data = None\<rparr>"
| "ipc_of (ErrorMessage serializedError) =
     \<lparr>ipc_type = ''error'',
      ipc_data = Some \<lparr>ipc_plugins = None, ipc_serializedError = Some serializedError\<rparr>\<rparr>"

text \<open>
  Whether an object has the type \<^verbatim>\<open>Message\<close> of lines 13 to 23: its \<^verbatim>\<open>type\<close> is one of the
  three literals and the payload of that member of the union is there.
\<close>

definition is_Message :: "('p, 'eo) ipc_message \<Rightarrow> bool" where
  "is_Message raw =
     (if ipc_type raw = ''success-plugin''
      then (case ipc_data raw of None \<Rightarrow> False | Some d \<Rightarrow> ipc_plugins d \<noteq> None)
      else if ipc_type raw = ''success-typegen'' then True
      else if ipc_type raw = ''error''
      then (case ipc_data raw of None \<Rightarrow> False | Some d \<Rightarrow> ipc_serializedError d \<noteq> None)
      else False)"

text \<open>
  The listener of lines 93 to 101 on such an object. \<open>deserialize\<close> is \<^verbatim>\<open>deserializeError\<close>
  on a value that may be \<^verbatim>\<open>undefined\<close>. The result is \<open>None\<close> when the listener throws:
  reading \<^verbatim>\<open>message.data.serializedError\<close> of a message without \<^verbatim>\<open>data\<close> is a \<^verbatim>\<open>TypeError\<close>.
\<close>

definition on_ipc_message ::
  "('eo option \<Rightarrow> Error) \<Rightarrow> ('p, 'eo) ipc_message \<Rightarrow> 'p settling \<Rightarrow> 'p settling option" where
  "on_ipc_message deserialize raw st =
     (let st1 = (if ipc_type raw = ''success-typegen''
                 then (resolve Success (fst st), snd st) else st)
      in if ipc_type raw = ''error''
         then (case ipc_data raw of
                 None \<Rightarrow> None
               | Some d \<Rightarrow>
                   Some (resolve (Failure (deserialize (ipc_serializedError d))) (fst st1),
                         snd st1))
         else Some st1)"

subsection \<open>An instance of the parameters\<close>

text \<open>
  A small parent process for the examples: its state holds the environment variables,
  the reflection stage and the plugins of the app; plugins, layout data and serialized
  errors are strings. \<open>demo_externals evs started\<close> is a run in which the child delivers the
  events \<open>evs\<close> and \<^verbatim>\<open>appRunner.start()\<close> registers the plugin \<open>prisma\<close> and yields \<open>started\<close>.
\<close>

record demo_world =
  dw_env :: "string \<rightharpoonup> string"
  dw_stage :: "string option"
  dw_plugins :: "string list"

definition demo_externals ::
  "(string, string) cp_event list \<Rightarrow> unit promise
     \<Rightarrow> (string, string, string, demo_world) externals" where
  "demo_externals evs started =
     \<lparr>dirname = ''/app/node_modules/nexus/dist/lib/reflection'',
      Path_join = (\<lambda>a b. a @ ''/'' @ b),
      JSON_stringify = (\<lambda>d. d),
      getReflectionStageEnv = (\<lambda>t. [''NEXUS_REFLECTION'' \<mapsto> t]),
      setReflectionStage = (\<lambda>t w. w\<lparr>dw_stage := Some t\<rparr>),
      removeReflectionStage = (\<lambda>w. w\<lparr>dw_stage := None\<rparr>),
      deserializeError = new_Error,
      process_env = dw_env,
      app_plugins = dw_plugins,
      createDevAppRunner = (\<lambda>layout c w0.
        (\<lambda>w. (started, w\<lparr>dw_plugins := dw_plugins w @ [''prisma'']\<rparr>), w0)),
      child_events = (\<lambda>cp w. evs)\<rparr>"

definition demo_layout :: "string Layout" where
  "demo_layout = \<lparr>projectRoot = ''/app'', data = ''{}''\<rparr>"

definition demo_state :: "demo_world state" where
  "demo_state =
     \<lparr>world = \<lparr>dw_env = [''PATH'' \<mapsto> ''/usr/bin''], dw_stage = None, dw_plugins = []\<rparr>,
      effects = []\<rparr>"

text \<open>
  In the examples \<^verbatim>\<open>fork\<close> throws when \<^verbatim>\<open>cwd\<close> holds a null byte and no other call throws;
  \<^verbatim>\<open>deserializeError\<close> of \<^verbatim>\<open>undefined\<close> is some error that is not an \<^verbatim>\<open>Error\<close> of the child.
\<close>

definition demo_throwing :: "(string, demo_world) throwing" where
  "demo_throwing =
     nothing_throws\<lparr>fork_throws := (\<lambda>cp. if CHR 0x00 \<in> set (cwd cp)
        then Some \<lparr>name = ''TypeError'', message = ''ERR_INVALID_ARG_VALUE''\<rparr> else None)\<rparr>"

definition demo_deserialize :: "string option \<Rightarrow> Error" where
  "demo_deserialize v =
     (case v of None \<Rightarrow> \<lparr>name = ''NonError'', message = ''undefined''\<rparr> | Some e \<Rightarrow> new_Error e)"

section \<open>Properties\<close>

subsection \<open>The event loop\<close>

lemma deliver_all_append:
  "deliver_all X sm (xs @ ys) st = deliver_all X sm ys (deliver_all X sm xs st)"
  by (induction xs arbitrary: st) simp_all

lemma resolve_settled: "p \<noteq> Pending \<Longrightarrow> resolve v p = p"
  by (cases p) simp_all

text \<open>Once the promise is settled, no handler changes it.\<close>

lemma fst_deliver_settled:
  "fst st \<noteq> Pending \<Longrightarrow> fst (deliver X sm ev st) = fst st"
  by (cases ev) (simp_all add: on_message_def on_error_def on_stderr_data_def on_exit_def
      resolve_settled Let_def split: Message.splits)

lemma fst_deliver_all_settled:
  "fst st \<noteq> Pending \<Longrightarrow> fst (deliver_all X sm evs st) = fst st"
  by (induction evs arbitrary: st) (simp_all add: fst_deliver_settled)

lemma fst_runTypegen:
  "fst (runTypegenReflectionAsSubProcess X layout s) =
     fst (deliver_all X (stdio (fork_call X layout (world s)))
            (child_events X (fork_call X layout (world s)) (world s)) (Pending, []))"
  by (simp add: runTypegenReflectionAsSubProcess_def Let_def)

text \<open>The first event that resolves a pending promise decides the result.\<close>

lemma settled_at:
  assumes "fst (deliver_all X sm pre (Pending, [])) = Pending"
    and "fst (deliver X sm ev (deliver_all X sm pre (Pending, []))) = Resolved r"
  shows "fst (deliver_all X sm (pre @ ev # post) (Pending, [])) = Resolved r"
  using assms by (simp add: deliver_all_append fst_deliver_all_settled)

text \<open>A \<^verbatim>\<open>'success-plugin'\<close> message and an exit with code 0 leave the promise as it is.\<close>

lemma fst_deliver_all_quiet:
  "\<forall>ev \<in> set evs. (\<exists>plugins. ev = MessageEv (SuccessPlugin plugins)) \<or> ev = ExitEv (Some 0)
     \<Longrightarrow> fst (deliver_all X sm evs st) = fst st"
  by (induction evs arbitrary: st) (auto simp: on_message_def on_exit_def)

text \<open>The handlers add nothing but \<^verbatim>\<open>log.trace\<close> calls to the effects.\<close>

lemma snd_deliver_logs:
  "e \<in> set (snd (deliver X sm ev st)) \<Longrightarrow> e \<in> set (snd st) \<or> (\<exists>m c. e = LogTrace m c)"
  by (cases ev) (auto simp: on_message_def on_error_def on_stderr_data_def on_exit_def Let_def
      split: Message.splits if_splits)

lemma snd_deliver_all_logs:
  "e \<in> set (snd (deliver_all X sm evs st)) \<Longrightarrow> e \<in> set (snd st) \<or> (\<exists>m c. e = LogTrace m c)"
proof (induction evs arbitrary: st)
  case Nil
  then show ?case by simp
next
  case (Cons ev evs)
  from Cons.prems have "e \<in> set (snd (deliver_all X sm evs (deliver X sm ev st)))" by simp
  then have "e \<in> set (snd (deliver X sm ev st)) \<or> (\<exists>m c. e = LogTrace m c)"
    by (rule Cons.IH)
  then show ?case using snd_deliver_logs by blast
qed




text \<open>
  When no imported call throws, the definitions with throwing calls are the ones without.
\<close>

lemma runTypegen_throwing_nothing:
  "runTypegenReflectionAsSubProcess_throwing nothing_throws X layout s
     = runTypegenReflectionAsSubProcess X layout s"
  by (simp add: runTypegenReflectionAsSubProcess_throwing_def nothing_throws_def)

lemma runPlugins_throwing_nothing:
  "runPluginsReflectionOnMainThread_throwing nothing_throws X layout s
     = runPluginsReflectionOnMainThread X layout s"
  by (simp add: runPluginsReflectionOnMainThread_throwing_def
      runPluginsReflectionOnMainThread_def nothing_throws_def Let_def split: promise.splits)

lemma log_trace_throws_nothing: "log_trace_throws nothing_throws event = None"
  by (simp add: nothing_throws_def)

lemma reflect_throwing_nothing:
  "reflect_throwing nothing_throws X layout opts s = reflect X layout opts s"
  by (simp add: reflect_throwing_def reflect_def runTypegen_throwing_nothing
      runPlugins_throwing_nothing log_trace_throws_nothing Let_def)


text \<open>A throw of \<^verbatim>\<open>fork\<close>, the last call of the executor, rejects the promise.\<close>

lemma fork_throw_rejects:
  assumes "log_trace_throws T ''reflection started'' = None"
    and "artifacts opts"
    and "Path_join_throws T (dirname X) ''fork-script.js'' = None"
    and "JSON_stringify_throws T (data layout) = None"
    and "getReflectionStageEnv_throws T ''typegen'' = None"
    and "fork_throws T (fork_call X layout (world s)) = Some e"
  shows "fst (reflect_throwing T X layout opts s) = Rejected e"
  using assms
  by (simp add: reflect_throwing_def runTypegenReflectionAsSubProcess_throwing_def emit_def
      Let_def)




text \<open>
  With a pending promise and the events \<open>evs\<close> to come, the promise stays pending exactly
  when every event is a \<^verbatim>\<open>'success-plugin'\<close> message, an exit with code 0, or stderr data
  of a child whose stderr is not piped.
\<close>

lemma pending_iff_quiet:
  "fst (deliver_all X sm evs (Pending, l)) = Pending \<longleftrightarrow>
     (\<forall>ev \<in> set evs. (\<exists>plugins. ev = MessageEv (SuccessPlugin plugins)) \<or> ev = ExitEv (Some 0)
        \<or> (sm = Inherit \<and> (\<exists>chunk. ev = StderrData chunk)))"
proof (induction evs arbitrary: l)
  case Nil
  then show ?case by simp
next
  case (Cons ev evs)
  show ?case
  proof (cases "fst (deliver X sm ev (Pending, l)) = Pending")
    case True
    then obtain l' where d: "deliver X sm ev (Pending, l) = (Pending, l')"
      by (metis prod.collapse)
    from True have "(\<exists>plugins. ev = MessageEv (SuccessPlugin plugins)) \<or> ev = ExitEv (Some 0)
        \<or> (sm = Inherit \<and> (\<exists>chunk. ev = StderrData chunk))"
      by (cases ev)
        (auto simp: on_message_def on_error_def on_stderr_data_def on_exit_def Let_def
          split: Message.splits if_splits stdio_mode.splits intro: stdio_mode.exhaust)
    with d Cons.IH [of l'] show ?thesis by simp
  next
    case False
    then have "fst (deliver_all X sm evs (deliver X sm ev (Pending, l))) \<noteq> Pending"
      by (simp add: fst_deliver_all_settled)
    moreover from False have "\<not> ((\<exists>plugins. ev = MessageEv (SuccessPlugin plugins))
        \<or> ev = ExitEv (Some 0) \<or> (sm = Inherit \<and> (\<exists>chunk. ev = StderrData chunk)))"
      by (auto simp: on_message_def on_exit_def)
    ultimately show ?thesis by simp
  qed
qed

subsection \<open>The text of an exit code\<close>

text \<open>
  \<^verbatim>\<open>String(code)\<close> tells the exit codes apart, and so does the message made from it.
\<close>

lemma digit_char_inj:
  "a < 10 \<Longrightarrow> b < 10 \<Longrightarrow> ''0123456789'' ! a = ''0123456789'' ! b \<Longrightarrow> a = b"
proof -
  have "distinct ''0123456789''" by simp
  moreover have "length ''0123456789'' = 10" by simp
  ultimately show "a < 10 \<Longrightarrow> b < 10 \<Longrightarrow> ''0123456789'' ! a = ''0123456789'' ! b \<Longrightarrow> a = b"
    by (metis nth_eq_iff_index_eq)
qed

lemma digits_not_Nil: "digits n \<noteq> []"
  by (subst digits.simps) simp

lemma digit_char_mem: "k < 10 \<Longrightarrow> ''0123456789'' ! k \<in> set ''0123456789''"
  by (rule nth_mem) simp

lemma set_digits: "set (digits n) \<subseteq> set ''0123456789''"
proof -
  define S where "S = set ''0123456789''"
  have mem: "''0123456789'' ! k \<in> S" if "k < 10" for k
    unfolding S_def using that by (rule digit_char_mem)
  have "set (digits n) \<subseteq> S"
  proof (induction n rule: digits.induct)
    case (1 n)
    show ?case
    proof (cases "n < 10")
      case True
      then have "digits n = [''0123456789'' ! n]" by (subst digits.simps) simp
      with mem [OF True] show ?thesis by simp
    next
      case False
      then have "digits n = digits (n div 10) @ [''0123456789'' ! (n mod 10)]"
        by (subst digits.simps) simp
      moreover have "''0123456789'' ! (n mod 10) \<in> S"
        by (rule mem) simp
      ultimately show ?thesis using "1.IH" [OF False] by simp
    qed
  qed
  then show ?thesis by (simp only: S_def)
qed

lemma digits_inj: "digits n = digits m \<Longrightarrow> n = m"
proof (induction n arbitrary: m rule: digits.induct)
  case (1 n)
  show ?case
  proof (cases "n < 10")
    case True
    show ?thesis
    proof (cases "m < 10")
      case mT: True
      from "1.prems" True mT have "''0123456789'' ! n = ''0123456789'' ! m"
        by (simp add: digits.simps)
      with True mT show ?thesis by (rule digit_char_inj)
    next
      case False
      from "1.prems" True False have "digits (m div 10) = []"
        by (simp add: digits.simps [of n] digits.simps [of m])
      with digits_not_Nil show ?thesis by blast
    qed
  next
    case False
    show ?thesis
    proof (cases "m < 10")
      case True
      from "1.prems" True False have "digits (n div 10) = []"
        by (simp add: digits.simps [of n] digits.simps [of m])
      with digits_not_Nil show ?thesis by blast
    next
      case mF: False
      from "1.prems" False mF have eq: "digits (n div 10) = digits (m div 10)"
        and c: "''0123456789'' ! (n mod 10) = ''0123456789'' ! (m mod 10)"
        by (simp_all add: digits.simps [of n] digits.simps [of m])
      from "1.IH" [OF False eq] have d: "n div 10 = m div 10" .
      have "n mod 10 = m mod 10"
        using c by (intro digit_char_inj) simp_all
      with d show ?thesis by (metis div_mult_mod_eq)
    qed
  qed
qed

lemma string_of_int_inj: "string_of_int i = string_of_int j \<Longrightarrow> i = j"
proof -
  assume eq: "string_of_int i = string_of_int j"
  have minus: "CHR ''-'' # digits a \<noteq> digits b" for a b
  proof
    assume "CHR ''-'' # digits a = digits b"
    then have "CHR ''-'' \<in> set (digits b)" by (metis list.set_intros(1))
    with set_digits [of b] show False by auto
  qed
  show "i = j"
  proof (cases "i < 0"; cases "j < 0")
    assume "i < 0" "j < 0"
    with eq have "nat (- i) = nat (- j)" by (simp add: string_of_int_def digits_inj)
    with \<open>i < 0\<close> \<open>j < 0\<close> show ?thesis by simp
  next
    assume "i < 0" "\<not> j < 0"
    with eq minus show ?thesis by (simp add: string_of_int_def)
  next
    assume "\<not> i < 0" "j < 0"
    with eq minus [of "nat (- j)" "nat i"] show ?thesis by (simp add: string_of_int_def)
  next
    assume "\<not> i < 0" "\<not> j < 0"
    with eq have "nat i = nat j" by (simp add: string_of_int_def digits_inj)
    with \<open>\<not> i < 0\<close> \<open>\<not> j < 0\<close> show ?thesis by simp
  qed
qed

lemma string_of_int_not_null: "string_of_int i \<noteq> ''null''"
proof
  assume eq: "string_of_int i = ''null''"
  show False
  proof (cases "i < 0")
    case True
    with eq show False by (simp add: string_of_int_def)
  next
    case False
    with eq have "CHR ''n'' \<in> set (digits (nat i))" by (simp add: string_of_int_def)
    with set_digits [of "nat i"] show False by auto
  qed
qed

lemma string_of_code_inj: "string_of_code c = string_of_code c' \<Longrightarrow> c = c'"
  using string_of_int_not_null string_of_int_inj
  by (cases c; cases c') (auto dest: sym)

lemma exit_failure_message_inj:
  "exit_failure_message c = exit_failure_message c' \<Longrightarrow> c = c'"
  by (simp add: exit_failure_message_def string_of_code_inj)

subsection \<open>The message protocol\<close>

text \<open>
  C7, as amended: the type \<^verbatim>\<open>Message\<close> has exactly three shapes, \<^verbatim>\<open>'success-plugin'\<close> carrying
  a list of plugins, \<^verbatim>\<open>'success-typegen'\<close> without payload and \<^verbatim>\<open>'error'\<close> carrying a
  serialized error, and an object of this type has one of the three type tags. The
  listener of the parent does not check the shape of what it gets: on a message of one of
  the three shapes it is the handler \<open>on_message\<close> (it resolves for \<^verbatim>\<open>'success-typegen'\<close> and
  \<^verbatim>\<open>'error'\<close> and does nothing for \<^verbatim>\<open>'success-plugin'\<close>), and every message whose type is
  neither \<^verbatim>\<open>'success-typegen'\<close> nor \<^verbatim>\<open>'error'\<close> it takes and ignores, of the three shapes or
  not.
\<close>

theorem listener_on_declared_and_other_messages:
  "(((\<exists>plugins. msg = SuccessPlugin plugins) \<and> message_type msg = ''success-plugin'')
    \<or> (msg = SuccessTypegen \<and> message_type msg = ''success-typegen'')
    \<or> ((\<exists>serializedError. msg = ErrorMessage serializedError) \<and> message_type msg = ''error''))
   \<and> range (message_type :: ('p, 'eo) Message \<Rightarrow> string)
       = {''success-plugin'', ''success-typegen'', ''error''}
   \<and> card (range (message_type :: ('p, 'eo) Message \<Rightarrow> string)) = 3
   \<and> is_Message (ipc_of msg) \<and> ipc_type (ipc_of msg) = message_type msg
   \<and> (is_Message raw \<longrightarrow> ipc_type raw \<in> {''success-plugin'', ''success-typegen'', ''error''})
   \<and> ((\<forall>e. deserialize (Some e) = deserializeError X e) \<longrightarrow>
         on_ipc_message deserialize (ipc_of msg) st = Some (on_message X msg st))
   \<and> (ipc_type raw \<noteq> ''success-typegen'' \<and> ipc_type raw \<noteq> ''error'' \<longrightarrow>
         on_ipc_message deserialize raw st = Some st)"
proof -
  have shapes: "((\<exists>plugins. m = SuccessPlugin plugins) \<and> message_type m = ''success-plugin'')
      \<or> (m = SuccessTypegen \<and> message_type m = ''success-typegen'')
      \<or> ((\<exists>serializedError. m = ErrorMessage serializedError) \<and> message_type m = ''error'')"
    for m :: "('a, 'b) Message"
    by (cases m) simp_all
  have "message_type m \<in> {''success-plugin'', ''success-typegen'', ''error''}"
    for m :: "('p, 'eo) Message"
    by (cases m) simp_all
  then have "range (message_type :: ('p, 'eo) Message \<Rightarrow> string)
      \<subseteq> {''success-plugin'', ''success-typegen'', ''error''}"
    by (rule image_subsetI)
  moreover have "''success-plugin'' \<in> range (message_type :: ('p, 'eo) Message \<Rightarrow> string)"
    using message_type.simps(1) [of "[]"] by (metis rangeI)
  moreover have "''success-typegen'' \<in> range (message_type :: ('p, 'eo) Message \<Rightarrow> string)"
    using message_type.simps(2) by (metis rangeI)
  moreover have "''error'' \<in> range (message_type :: ('p, 'eo) Message \<Rightarrow> string)"
    using message_type.simps(3) by (metis rangeI)
  ultimately have r: "range (message_type :: ('p, 'eo) Message \<Rightarrow> string)
      = {''success-plugin'', ''success-typegen'', ''error''}"
    by blast
  have c: "card {''success-plugin'', ''success-typegen'', ''error''} = 3" by simp
  have conf: "is_Message (ipc_of msg) \<and> ipc_type (ipc_of msg) = message_type msg"
    by (cases msg) (simp_all add: is_Message_def)
  have tags: "is_Message raw \<longrightarrow>
      ipc_type raw \<in> {''success-plugin'', ''success-typegen'', ''error''}"
    by (simp add: is_Message_def split: if_splits)
  have decl: "(\<forall>e. deserialize (Some e) = deserializeError X e) \<longrightarrow>
      on_ipc_message deserialize (ipc_of msg) st = Some (on_message X msg st)"
    by (cases msg) (simp_all add: on_ipc_message_def on_message_def)
  have other: "ipc_type raw \<noteq> ''success-typegen'' \<and> ipc_type raw \<noteq> ''error'' \<longrightarrow>
      on_ipc_message deserialize raw st = Some st"
    by (simp add: on_ipc_message_def)
  from shapes [of msg] r c conf tags decl other show ?thesis by simp
qed

text \<open>
  An \<^verbatim>\<open>'error'\<close> message of the declared shape resolves a pending promise to the failure,
  and a \<^verbatim>\<open>'success-plugin'\<close> message of the declared shape is ignored.
\<close>

theorem listener_on_declared_and_other_messages_witness:
  "on_ipc_message demo_deserialize (ipc_of (ErrorMessage ''boom'')) (Pending, [])
     = Some (Resolved (Failure (new_Error ''boom'')) :: string ReflectionResult promise, [])
   \<and> is_Message (ipc_of (SuccessPlugin [''prisma''] :: (string, string) Message))
   \<and> on_ipc_message demo_deserialize (ipc_of (SuccessPlugin [''prisma'']))
        (Pending :: string ReflectionResult promise, [])
     = Some (Pending, [])"
proof -
  let ?X = "demo_externals [] Pending"
  let ?st = "(Pending :: string ReflectionResult promise, [] :: effect list)"
  let ?raw = "ipc_of (SuccessPlugin [''prisma''] :: (string, string) Message)"
  have d: "\<forall>e. demo_deserialize (Some e) = deserializeError ?X e"
    by (simp add: demo_deserialize_def demo_externals_def)
  have o: "ipc_type ?raw \<noteq> ''success-typegen'' \<and> ipc_type ?raw \<noteq> ''error''"
    by simp
  have m: "is_Message ?raw" by (simp add: is_Message_def)
  note t = listener_on_declared_and_other_messages
    [where msg = "ErrorMessage ''boom'' :: (string, string) Message" and raw = ?raw
      and deserialize = demo_deserialize and X = ?X and st = ?st]
  from t d have "on_ipc_message demo_deserialize (ipc_of (ErrorMessage ''boom'')) ?st
      = Some (on_message ?X (ErrorMessage ''boom'') ?st)"
    by blast
  moreover from t o have "on_ipc_message demo_deserialize ?raw ?st = Some ?st"
    by blast
  moreover from t m have "ipc_type ?raw \<in> {''success-plugin'', ''success-typegen'', ''error''}"
    by blast
  ultimately show ?thesis using m
    by (simp add: on_message_def demo_externals_def)
qed

text \<open>
  C7 as stated fails in its second half: the object \<^verbatim>\<open>{ type: 'other' }\<close> is none of the three
  shapes, and the listener takes it like any message, returns and leaves the promise
  pending.
\<close>

theorem undeclared_message_handled_counterexample:
  "\<not> is_Message (\<lparr>ipc_type = ''other'', ipc_data = None\<rparr> :: (string, string) ipc_message)
   \<and> on_ipc_message demo_deserialize
        (\<lparr>ipc_type = ''other'', ipc_data = None\<rparr> :: (string, string) ipc_message)
        (Pending :: string ReflectionResult promise, [])
       = Some (Pending, [])"
  by (simp add: is_Message_def on_ipc_message_def)

subsection \<open>The forked child\<close>

text \<open>
  C6: for every layout, the child is forked from the script \<^verbatim>\<open>fork-script.js\<close> next to the
  module, with \<^verbatim>\<open>cwd\<close> the project root of the layout and with the environment of the parent
  extended by \<^verbatim>\<open>NEXUS_REFLECTION_LAYOUT\<close>, bound to the JSON text of \<^verbatim>\<open>layout.data\<close>, and by
  the variables of the reflection stage \<^verbatim>\<open>'typegen'\<close> (which come last in the spread and
  win over both). This fork is the first call \<^verbatim>\<open>runTypegenReflectionAsSubProcess\<close> makes;
  what follows it are the log entries of the handlers.
\<close>

theorem fork_call_cwd_and_env:
  "cwd (fork_call X layout w) = projectRoot layout
   \<and> modulePath (fork_call X layout w) = Path_join X (dirname X) ''fork-script.js''
   \<and> env (fork_call X layout w)
       = (process_env X w)(''NEXUS_REFLECTION_LAYOUT'' \<mapsto> JSON_stringify X (data layout))
           ++ getReflectionStageEnv X ''typegen''
   \<and> env (fork_call X layout w) k
       = (case getReflectionStageEnv X ''typegen'' k of
            Some v \<Rightarrow> Some v
          | None \<Rightarrow> if k = ''NEXUS_REFLECTION_LAYOUT'' then Some (JSON_stringify X (data layout))
                    else process_env X w k)
   \<and> effects (snd (runTypegenReflectionAsSubProcess X layout s))
       = effects s @ Fork (fork_call X layout (world s))
           # snd (deliver_all X (stdio (fork_call X layout (world s)))
                    (child_events X (fork_call X layout (world s)) (world s)) (Pending, []))"
  by (simp add: fork_call_def runTypegenReflectionAsSubProcess_def emit_def Let_def map_add_def
      split: option.splits)

text \<open>In the example the child sees the parent's \<open>PATH\<close>, the layout and the stage.\<close>

theorem fork_call_cwd_and_env_witness:
  "cwd (fork_call (demo_externals [] Pending) demo_layout (world demo_state)) = ''/app''
   \<and> modulePath (fork_call (demo_externals [] Pending) demo_layout (world demo_state))
       = ''/app/node_modules/nexus/dist/lib/reflection/fork-script.js''
   \<and> env (fork_call (demo_externals [] Pending) demo_layout (world demo_state)) ''PATH''
       = Some ''/usr/bin''
   \<and> env (fork_call (demo_externals [] Pending) demo_layout (world demo_state))
         ''NEXUS_REFLECTION_LAYOUT'' = Some ''{}''
   \<and> env (fork_call (demo_externals [] Pending) demo_layout (world demo_state))
         ''NEXUS_REFLECTION'' = Some ''typegen''"
  using fork_call_cwd_and_env [of "demo_externals [] Pending" demo_layout "world demo_state"
      "''PATH''" demo_state]
    fork_call_cwd_and_env [of "demo_externals [] Pending" demo_layout "world demo_state"
      "''NEXUS_REFLECTION_LAYOUT''" demo_state]
    fork_call_cwd_and_env [of "demo_externals [] Pending" demo_layout "world demo_state"
      "''NEXUS_REFLECTION''" demo_state]
  by (simp add: demo_externals_def demo_layout_def demo_state_def)

subsection \<open>What resolves the promise of \<^verbatim>\<open>runTypegenReflectionAsSubProcess\<close>\<close>

text \<open>
  C1, as amended: when the child sends a terminal message and the promise is still
  pending when that message is handled (no \<^verbatim>\<open>'error'\<close> event, no data on a piped stderr and
  no exit with a code other than 0 came before it), the promise resolves to
  \<^verbatim>\<open>{ success: true }\<close> for a \<^verbatim>\<open>'success-typegen'\<close> message and to \<^verbatim>\<open>{ success: false, error }\<close>
  with the deserialized error for an \<^verbatim>\<open>'error'\<close> message, whatever is delivered afterwards.
  By \<open>pending_iff_quiet\<close> the second hypothesis holds exactly when nothing but
  \<^verbatim>\<open>'success-plugin'\<close> messages, exits with code 0 and data of a stderr that is not piped
  came before the message.
\<close>

theorem terminal_message_resolves_pending_promise:
  assumes "child_events X (fork_call X layout (world s)) (world s) = pre @ MessageEv msg # post"
    and "fst (deliver_all X (stdio (fork_call X layout (world s))) pre (Pending, [])) = Pending"
  shows "(msg = SuccessTypegen \<longrightarrow>
            fst (runTypegenReflectionAsSubProcess X layout s) = Resolved Success)
       \<and> (\<forall>serializedError. msg = ErrorMessage serializedError \<longrightarrow>
            fst (runTypegenReflectionAsSubProcess X layout s)
              = Resolved (Failure (deserializeError X serializedError)))"
proof -
  let ?sm = "stdio (fork_call X layout (world s))"
  let ?st = "deliver_all X ?sm pre (Pending, [])"
  have "fst (deliver X ?sm (MessageEv SuccessTypegen) ?st) = Resolved Success"
    using assms(2) by (simp add: on_message_def)
  moreover have "fst (deliver X ?sm (MessageEv (ErrorMessage e)) ?st)
      = Resolved (Failure (deserializeError X e))" for e
    using assms(2) by (simp add: on_message_def)
  ultimately show ?thesis
    using assms by (auto simp: fst_runTypegen intro: settled_at)
qed

theorem terminal_message_resolves_pending_promise_witness:
  "fst (runTypegenReflectionAsSubProcess
          (demo_externals [MessageEv SuccessTypegen, ExitEv (Some 0)] Pending)
          demo_layout demo_state) = Resolved Success
   \<and> fst (runTypegenReflectionAsSubProcess
          (demo_externals [MessageEv (ErrorMessage ''schema is invalid''), ExitEv (Some 1)] Pending)
          demo_layout demo_state) = Resolved (Failure (new_Error ''schema is invalid''))"
  using terminal_message_resolves_pending_promise
      [where X = "demo_externals [MessageEv SuccessTypegen, ExitEv (Some 0)] Pending"
        and layout = demo_layout and s = demo_state and pre = "[]" and msg = SuccessTypegen
        and post = "[ExitEv (Some 0)]"]
    terminal_message_resolves_pending_promise
      [where X = "demo_externals [MessageEv (ErrorMessage ''schema is invalid''), ExitEv (Some 1)]
                    Pending"
        and layout = demo_layout and s = demo_state and pre = "[]"
        and msg = "ErrorMessage ''schema is invalid''" and post = "[ExitEv (Some 1)]"]
  by (simp add: demo_externals_def)

text \<open>
  C1 as stated fails: a child that writes to its piped stderr, then sends its one terminal
  message \<^verbatim>\<open>'success-typegen'\<close> and exits with code 0 leaves the promise resolved to a
  failure built from the stderr data.
\<close>

theorem stderr_before_success_message_counterexample:
  "fst (runTypegenReflectionAsSubProcess
          (demo_externals [StderrData ''warning'', MessageEv SuccessTypegen, ExitEv (Some 0)]
             Pending)
          demo_layout demo_state) = Resolved (Failure (new_Error ''warning''))
   \<and> fst (runTypegenReflectionAsSubProcess
          (demo_externals [StderrData ''warning'', MessageEv SuccessTypegen, ExitEv (Some 0)]
             Pending)
          demo_layout demo_state) \<noteq> Resolved Success"
  by (simp add: fst_runTypegen demo_externals_def demo_state_def fork_call_def
      on_stderr_data_def on_message_def on_exit_def)

text \<open>
  C5: when the child exits with a code other than 0 (or with no code at all) while the
  promise is still pending, the promise resolves to \<^verbatim>\<open>{ success: false, error }\<close> and the
  message of the error is the template text around \<^verbatim>\<open>String(code)\<close>, whatever is delivered
  afterwards; no other exit code gives the same message. The handler does nothing on an
  exit with code 0.
\<close>

theorem nonzero_exit_resolves_failure:
  assumes "child_events X (fork_call X layout (world s)) (world s) = pre @ ExitEv code # post"
    and "fst (deliver_all X (stdio (fork_call X layout (world s))) pre (Pending, [])) = Pending"
    and "code \<noteq> Some 0"
  shows "fst (runTypegenReflectionAsSubProcess X layout s)
           = Resolved (Failure (new_Error (exit_failure_message code)))
       \<and> message (new_Error (exit_failure_message code))
           = ''\<newline>        Runner failed with exit code \"'' @ string_of_code code
               @ ''\".\<newline>      ''
       \<and> (\<forall>code'. exit_failure_message code' = exit_failure_message code \<longrightarrow> code' = code)
       \<and> on_exit (Some 0) st = st"
proof -
  let ?sm = "stdio (fork_call X layout (world s))"
  have "fst (deliver X ?sm (ExitEv code) (deliver_all X ?sm pre (Pending, [])))
      = Resolved (Failure (new_Error (exit_failure_message code)))"
    using assms(2,3) by (simp add: on_exit_def)
  with assms(1,2) have "fst (runTypegenReflectionAsSubProcess X layout s)
      = Resolved (Failure (new_Error (exit_failure_message code)))"
    by (simp add: fst_runTypegen settled_at)
  moreover have "message (new_Error (exit_failure_message code))
      = ''\<newline>        Runner failed with exit code \"'' @ string_of_code code
          @ ''\".\<newline>      ''"
    by (simp add: new_Error_def exit_failure_message_def)
  moreover have "\<forall>code'. exit_failure_message code' = exit_failure_message code \<longrightarrow> code' = code"
    using exit_failure_message_inj by blast
  moreover have "on_exit (Some 0) st = st"
    by (simp add: on_exit_def)
  ultimately show ?thesis by blast
qed

text \<open>
  A child that sends a \<^verbatim>\<open>'success-plugin'\<close> message and exits with code 137: the message of
  the error spells the code in decimal.
\<close>

theorem nonzero_exit_resolves_failure_witness:
  "fst (runTypegenReflectionAsSubProcess
          (demo_externals [MessageEv (SuccessPlugin []), ExitEv (Some 137)] Pending)
          demo_layout demo_state)
     = Resolved (Failure \<lparr>name = ''Error'',
         message = ''\<newline>        Runner failed with exit code \"137\".\<newline>      ''\<rparr>)
   \<and> on_exit (Some 0) (Pending :: string ReflectionResult promise, []) = (Pending, [])"
  using nonzero_exit_resolves_failure
      [where X = "demo_externals [MessageEv (SuccessPlugin []), ExitEv (Some 137)] Pending"
        and layout = demo_layout and s = demo_state and pre = "[MessageEv (SuccessPlugin [])]"
        and code = "Some 137" and post = "[]"
        and st = "(Pending :: string ReflectionResult promise, [])"]
  by (simp add: demo_externals_def on_message_def new_Error_def exit_failure_message_def
      string_of_int_def digits.simps)

text \<open>
  C9, as amended: when \<^verbatim>\<open>process.env.DEBUG\<close> is unset, data emitted on the stderr stream of
  the child while the promise is still pending resolves the promise to
  \<^verbatim>\<open>{ success: false, error }\<close> with \<^verbatim>\<open>new Error\<close> of that data, even if a success message
  or an exit with code 0 follows.
\<close>

theorem stderr_data_resolves_pending_promise:
  assumes "process_env X (world s) ''DEBUG'' = None"
    and "child_events X (fork_call X layout (world s)) (world s) = pre @ StderrData chunk # post"
    and "fst (deliver_all X Pipe pre (Pending, [])) = Pending"
  shows "fst (runTypegenReflectionAsSubProcess X layout s) = Resolved (Failure (new_Error chunk))"
proof -
  have sm: "stdio (fork_call X layout (world s)) = Pipe"
    using assms(1) by (simp add: fork_call_def)
  have "fst (deliver X Pipe (StderrData chunk) (deliver_all X Pipe pre (Pending, [])))
      = Resolved (Failure (new_Error chunk))"
    using assms(3) by (simp add: on_stderr_data_def)
  with assms(2,3) sm show ?thesis
    by (simp add: fst_runTypegen settled_at)
qed

theorem stderr_data_resolves_pending_promise_witness:
  "fst (runTypegenReflectionAsSubProcess
          (demo_externals [StderrData ''boom'', MessageEv SuccessTypegen, ExitEv (Some 0)] Pending)
          demo_layout demo_state) = Resolved (Failure (new_Error ''boom''))"
  using stderr_data_resolves_pending_promise
      [where X = "demo_externals [StderrData ''boom'', MessageEv SuccessTypegen, ExitEv (Some 0)]
                    Pending"
        and layout = demo_layout and s = demo_state and pre = "[]" and chunk = "''boom''"
        and post = "[MessageEv SuccessTypegen, ExitEv (Some 0)]"]
  by (simp add: demo_externals_def demo_state_def)

text \<open>
  C9 as stated fails for data that arrives after the promise is resolved: a child that sends
  \<^verbatim>\<open>'success-typegen'\<close> and then writes to its stderr leaves the promise resolved to
  \<^verbatim>\<open>{ success: true }\<close>, with \<^verbatim>\<open>DEBUG\<close> unset.
\<close>

theorem stderr_after_success_message_counterexample:
  "process_env (demo_externals [MessageEv SuccessTypegen, StderrData ''late'', ExitEv (Some 0)]
        Pending) (world demo_state) ''DEBUG'' = None
   \<and> fst (runTypegenReflectionAsSubProcess
          (demo_externals [MessageEv SuccessTypegen, StderrData ''late'', ExitEv (Some 0)] Pending)
          demo_layout demo_state) = Resolved Success
   \<and> fst (runTypegenReflectionAsSubProcess
          (demo_externals [MessageEv SuccessTypegen, StderrData ''late'', ExitEv (Some 0)] Pending)
          demo_layout demo_state) \<noteq> Resolved (Failure (new_Error ''late''))"
  by (simp add: fst_runTypegen demo_externals_def demo_state_def fork_call_def
      on_stderr_data_def on_message_def on_exit_def)

text \<open>
  C10: when the child delivers nothing but \<^verbatim>\<open>'success-plugin'\<close> messages and an exit with
  code 0 (no \<^verbatim>\<open>'error'\<close> event, no stderr data), the promise is still pending after the last
  event: it never resolves.
\<close>

theorem success_plugin_only_stays_pending:
  assumes "\<forall>ev \<in> set (child_events X (fork_call X layout (world s)) (world s)).
             (\<exists>plugins. ev = MessageEv (SuccessPlugin plugins)) \<or> ev = ExitEv (Some 0)"
  shows "fst (runTypegenReflectionAsSubProcess X layout s) = Pending"
  using assms by (simp add: fst_runTypegen fst_deliver_all_quiet)

theorem success_plugin_only_stays_pending_witness:
  "fst (runTypegenReflectionAsSubProcess
          (demo_externals [MessageEv (SuccessPlugin [''prisma'']), ExitEv (Some 0)] Pending)
          demo_layout demo_state) = Pending"
  using success_plugin_only_stays_pending
      [of "demo_externals [MessageEv (SuccessPlugin [''prisma'']), ExitEv (Some 0)] Pending"
        demo_layout demo_state]
  by (simp add: demo_externals_def)

subsection \<open>\<^verbatim>\<open>runPluginsReflectionOnMainThread\<close> and \<^verbatim>\<open>reflect\<close>\<close>

text \<open>
  C8: in every run of \<^verbatim>\<open>runPluginsReflectionOnMainThread\<close> in which \<^verbatim>\<open>appRunner.start()\<close>
  throws, the function resolves to \<^verbatim>\<open>{ success: false, error }\<close> with what was thrown, and
  the calls it made are \<^verbatim>\<open>setReflectionStage('plugin')\<close> and the start, in this order:
  \<^verbatim>\<open>removeReflectionStage\<close> is not called, and the state of the process is the one the
  failed start left behind.
\<close>

theorem stage_not_removed_when_start_throws:
  assumes "createDevAppRunner X layout False (world s) = (start, w0)"
    and "start (setReflectionStage X ''plugin'' w0) = (Rejected error, w')"
  shows "runPluginsReflectionOnMainThread X layout s
           = (Resolved (Failure error),
              \<lparr>world = w',
               effects = effects s @ [CreateDevAppRunner False, SetReflectionStage ''plugin'',
                 AppRunnerStart]\<rparr>)"
  using assms
  by (simp add: runPluginsReflectionOnMainThread_def emit_def Let_def)

text \<open>In the example the stage is still \<open>plugin\<close> after the failed start.\<close>

theorem stage_not_removed_when_start_throws_witness:
  "runPluginsReflectionOnMainThread (demo_externals [] (Rejected (new_Error ''boom'')))
       demo_layout demo_state
     = (Resolved (Failure (new_Error ''boom'')),
        \<lparr>world = \<lparr>dw_env = [''PATH'' \<mapsto> ''/usr/bin''], dw_stage = Some ''plugin'',
                   dw_plugins = [''prisma'']\<rparr>,
         effects = [CreateDevAppRunner False, SetReflectionStage ''plugin'', AppRunnerStart]\<rparr>)"
proof -
  let ?X = "demo_externals [] (Rejected (new_Error ''boom''))"
  let ?start = "\<lambda>w. (Rejected (new_Error ''boom'') :: unit promise,
                   w\<lparr>dw_plugins := dw_plugins w @ [''prisma'']\<rparr>)"
  have created: "createDevAppRunner ?X demo_layout False (world demo_state)
      = (?start, world demo_state)"
    by (simp add: demo_externals_def)
  have started: "?start (setReflectionStage ?X ''plugin'' (world demo_state))
      = (Rejected (new_Error ''boom''),
         \<lparr>dw_env = [''PATH'' \<mapsto> ''/usr/bin''], dw_stage = Some ''plugin'',
          dw_plugins = [''prisma'']\<rparr>)"
    by (simp add: demo_externals_def demo_state_def)
  from stage_not_removed_when_start_throws [OF created started]
  show ?thesis by (simp add: demo_state_def)
qed

text \<open>
  C4: with \<^verbatim>\<open>usedPlugins: true\<close>, \<^verbatim>\<open>onMainThread: true\<close> and no \<^verbatim>\<open>artifacts\<close>, \<^verbatim>\<open>reflect\<close> is
  \<^verbatim>\<open>runPluginsReflectionOnMainThread\<close>: it starts the app in the parent process and forks
  nothing. When the start succeeds, the result is \<^verbatim>\<open>{ success: true, plugins }\<close> with the
  plugins found in the state of the app when the function returns.
\<close>

theorem reflect_usedPlugins_on_main_thread:
  assumes "usedPlugins opts" and "onMainThread opts = Some True" and "\<not> artifacts opts"
    and "createDevAppRunner X layout False (world s) = (start, w0)"
    and "start (setReflectionStage X ''plugin'' w0) = (Resolved u, w')"
  shows "reflect X layout opts s
           = runPluginsReflectionOnMainThread X layout
               (emit (LogTrace ''reflection started'' NoContext) s)
       \<and> reflect X layout opts s
           = (Resolved (SuccessPlugins (app_plugins X (removeReflectionStage X w'))),
              \<lparr>world = removeReflectionStage X w',
               effects = effects s @ [LogTrace ''reflection started'' NoContext,
                 CreateDevAppRunner False, SetReflectionStage ''plugin'', AppRunnerStart,
                 RemoveReflectionStage]\<rparr>)"
  using assms
  by (simp add: reflect_def runPluginsReflectionOnMainThread_def emit_def Let_def)

theorem reflect_usedPlugins_on_main_thread_witness:
  "reflect (demo_externals [] (Resolved ())) demo_layout
       \<lparr>usedPlugins = True, artifacts = False, onMainThread = Some True\<rparr> demo_state
     = (Resolved (SuccessPlugins [''prisma'']),
        \<lparr>world = \<lparr>dw_env = [''PATH'' \<mapsto> ''/usr/bin''], dw_stage = None,
                   dw_plugins = [''prisma'']\<rparr>,
         effects = [LogTrace ''reflection started'' NoContext, CreateDevAppRunner False,
           SetReflectionStage ''plugin'', AppRunnerStart, RemoveReflectionStage]\<rparr>)"
proof -
  let ?X = "demo_externals [] (Resolved ())"
  let ?opts = "\<lparr>usedPlugins = True, artifacts = False, onMainThread = Some True\<rparr>"
  let ?start = "\<lambda>w. (Resolved () :: unit promise,
                   w\<lparr>dw_plugins := dw_plugins w @ [''prisma'']\<rparr>)"
  let ?w' = "\<lparr>dw_env = [''PATH'' \<mapsto> ''/usr/bin''], dw_stage = Some ''plugin'',
               dw_plugins = [''prisma'']\<rparr>"
  have opts: "usedPlugins ?opts" "onMainThread ?opts = Some True" "\<not> artifacts ?opts"
    by simp_all
  have created: "createDevAppRunner ?X demo_layout False (world demo_state)
      = (?start, world demo_state)"
    by (simp add: demo_externals_def)
  have started: "?start (setReflectionStage ?X ''plugin'' (world demo_state)) = (Resolved (), ?w')"
    by (simp add: demo_externals_def demo_state_def)
  from reflect_usedPlugins_on_main_thread [OF opts created started, THEN conjunct2]
  show ?thesis by (simp add: demo_externals_def demo_state_def)
qed

text \<open>
  C3: with \<^verbatim>\<open>artifacts: true\<close>, whatever the other options are, \<^verbatim>\<open>reflect\<close> is
  \<^verbatim>\<open>runTypegenReflectionAsSubProcess\<close> after the log entry: it forks the child with the
  options of lines 83 to 91 and does not start the app in the parent process.
\<close>

theorem reflect_artifacts_forks:
  assumes "artifacts opts"
  shows "reflect X layout opts s
           = runTypegenReflectionAsSubProcess X layout
               (emit (LogTrace ''reflection started'' NoContext) s)
       \<and> Fork (fork_call X layout (world s)) \<in> set (effects (snd (reflect X layout opts s)))
       \<and> (AppRunnerStart \<in> set (effects (snd (reflect X layout opts s)))
            \<longleftrightarrow> AppRunnerStart \<in> set (effects s))"
proof -
  let ?cp = "fork_call X layout (world s)"
  let ?st = "deliver_all X (stdio ?cp) (child_events X ?cp (world s)) (Pending, [])"
  have eq: "reflect X layout opts s
      = runTypegenReflectionAsSubProcess X layout
          (emit (LogTrace ''reflection started'' NoContext) s)"
    using assms by (simp add: reflect_def Let_def)
  have eff: "effects (snd (reflect X layout opts s))
      = effects s @ [LogTrace ''reflection started'' NoContext, Fork ?cp] @ snd ?st"
    by (simp add: eq runTypegenReflectionAsSubProcess_def emit_def Let_def)
  have "AppRunnerStart \<notin> set (snd ?st)"
    using snd_deliver_all_logs [of AppRunnerStart X "stdio ?cp" _ "(Pending, [])"] by auto
  with eq eff show ?thesis by simp
qed

text \<open>The other options are set as for the main thread, and even to the guarded pair.\<close>

theorem reflect_artifacts_forks_witness:
  "reflect (demo_externals [MessageEv SuccessTypegen, ExitEv (Some 0)] Pending) demo_layout
       \<lparr>usedPlugins = True, artifacts = True, onMainThread = Some False\<rparr> demo_state
     = runTypegenReflectionAsSubProcess
         (demo_externals [MessageEv SuccessTypegen, ExitEv (Some 0)] Pending) demo_layout
         (emit (LogTrace ''reflection started'' NoContext) demo_state)
   \<and> fst (reflect (demo_externals [MessageEv SuccessTypegen, ExitEv (Some 0)] Pending) demo_layout
       \<lparr>usedPlugins = True, artifacts = True, onMainThread = Some False\<rparr> demo_state)
     = Resolved Success"
  using reflect_artifacts_forks
      [of "\<lparr>usedPlugins = True, artifacts = True, onMainThread = Some False\<rparr>"
        "demo_externals [MessageEv SuccessTypegen, ExitEv (Some 0)] Pending" demo_layout
        demo_state]
  by (simp add: fst_runTypegen demo_externals_def on_message_def on_exit_def)



text \<open>
  The same instance with a null byte in the project root: \<^verbatim>\<open>fork\<close> throws in the executor
  and the promise is rejected, though the options are not the guarded ones.
\<close>

lemma reflect_throwing_null_byte_example:
  "fst (reflect_throwing demo_throwing (demo_externals [] Pending)
          \<lparr>projectRoot = ''/app'' @ [CHR 0x00], data = ''{}''\<rparr>
          \<lparr>usedPlugins = False, artifacts = True, onMainThread = None\<rparr> demo_state)
     = Rejected \<lparr>name = ''TypeError'', message = ''ERR_INVALID_ARG_VALUE''\<rparr>"
  by (simp add: reflect_throwing_def runTypegenReflectionAsSubProcess_throwing_def
      demo_throwing_def nothing_throws_def fork_call_def emit_def Let_def)


end
